theory Spec2Isabelle
  imports Main "HOL-Library.AList"
begin

section \<open>Text operations of the Python runtime\<close>

text \<open>
  The script \<^verbatim>\<open>setup_github_issues.py\<close> handles text only through a few operations
  of Python's \<^verbatim>\<open>str\<close>: \<^verbatim>\<open>strip()\<close>, \<^verbatim>\<open>split('/')\<close>, \<^verbatim>\<open>",".join(...)\<close>, truthiness and
  formatting. Text is modelled as \<^typ>\<open>string\<close>. A code point outside ASCII stands as
  its UTF-8 bytes; the white space that \<^verbatim>\<open>strip()\<close> removes is the white space of the
  ASCII range (the code points 9 to 13 and 28 to 32, for which \<^verbatim>\<open>str.isspace\<close> holds);
  white space outside ASCII, such as U+00A0, is not modelled.
\<close>

definition isspace :: "char \<Rightarrow> bool" where
  "isspace c = (c \<in> set [CHR 0x09, CHR 0x0A, CHR 0x0B, CHR 0x0C, CHR 0x0D,
                           CHR 0x1C, CHR 0x1D, CHR 0x1E, CHR 0x1F, CHR 0x20])"

definition strip :: "string \<Rightarrow> string" where
  "strip s = rev (dropWhile isspace (rev (dropWhile isspace s)))"

text \<open>
  \<^verbatim>\<open>s.split(sep)\<close> for a separator of one character: the pieces between the
  separators, never an empty list (the empty text gives one empty piece). The scan
  keeps the piece it is reading, in reverse, in \<open>acc\<close>.
\<close>

fun split_from :: "char \<Rightarrow> string \<Rightarrow> string \<Rightarrow> string list" where
  "split_from sep acc [] = [rev acc]"
| "split_from sep acc (c # cs) =
     (if c = sep then rev acc # split_from sep [] cs
      else split_from sep (c # acc) cs)"

definition split :: "char \<Rightarrow> string \<Rightarrow> string list" where
  "split sep s = split_from sep [] s"

text \<open>\<^verbatim>\<open>sep.join(xs)\<close>.\<close>

fun join :: "string \<Rightarrow> string list \<Rightarrow> string" where
  "join sep [] = []"
| "join sep [x] = x"
| "join sep (x # y # ys) = x @ sep @ join sep (y # ys)"

text \<open>\<^verbatim>\<open>str(n)\<close> for the result of \<^verbatim>\<open>len\<close>: the decimal digits of a natural number.\<close>

fun str_nat :: "nat \<Rightarrow> string" where
  "str_nat n =
     (if n < 10 then [''0123456789'' ! n]
      else str_nat (n div 10) @ [''0123456789'' ! (n mod 10)])"

declare str_nat.simps [simp del]

text \<open>The check marks U+2713 and U+2705 of the progress lines, in UTF-8.\<close>

definition check_mark :: string where
  "check_mark = [CHR 0xE2, CHR 0x9C, CHR 0x93]"

definition check_mark_button :: string where
  "check_mark_button = [CHR 0xE2, CHR 0x9C, CHR 0x85]"

section \<open>The JSON decoder of the standard library\<close>

text \<open>
  \<^verbatim>\<open>create_milestones\<close> decodes the output of the tool with \<^verbatim>\<open>json.loads\<close>, subscripts
  the decoded value with \<^verbatim>\<open>'number'\<close> and formats the result. The decoder is not code of
  the script: the model takes it as a parameter, a record of the three operations over
  a type \<^typ>\<open>'j\<close> of decoded values, and every theorem holds for every such record.
  Each operation that can raise returns the exception as a value.
\<close>

datatype error = JSONDecodeError | KeyError | TypeError

record 'j pylib =
  json_loads :: "string \<Rightarrow> error + 'j"
  getitem :: "'j \<Rightarrow> string \<Rightarrow> error + 'j"
  str :: "'j \<Rightarrow> string"

section \<open>The static tables\<close>

record label =
  name :: string
  color :: string
  description :: string

record milestone =
  title :: string
  description :: string
  due_on :: "string option"

text \<open>
  The key \<^verbatim>\<open>"milestone"\<close> of an issue may be missing (\<^verbatim>\<open>"milestone" in issue\<close> is tested):
  the field is optional.
\<close>

record issue =
  title :: string
  body :: string
  labels :: "string list"
  milestone :: "string option"

definition OWNER :: string where
  \<open>OWNER = ''DubiWork''\<close>

definition REPO :: string where
  \<open>REPO = ''maaser-tracker''\<close>

definition LABELS :: "label list" where
  \<open>LABELS = [
    \<lparr>name = ''epic'', color = ''7057ff'', label.description = ''Epic-level issue''\<rparr>,
    \<lparr>name = ''story'', color = ''0e8a16'', label.description = ''User story''\<rparr>,
    \<lparr>name = ''task'', color = ''1d76db'', label.description = ''Technical task''\<rparr>,
    \<lparr>name = ''bug'', color = ''d73a4a'', label.description = ''Bug fix''\<rparr>,
    \<lparr>name = ''P0-critical'', color = ''b60205'', label.description = ''Critical priority''\<rparr>,
    \<lparr>name = ''P1-high'', color = ''d93f0b'', label.description = ''High priority''\<rparr>,
    \<lparr>name = ''P2-medium'', color = ''fbca04'', label.description = ''Medium priority''\<rparr>,
    \<lparr>name = ''P3-low'', color = ''c2e0c6'', label.description = ''Low priority''\<rparr>,
    \<lparr>name = ''frontend'', color = ''bfdadc'', label.description = ''Frontend work''\<rparr>,
    \<lparr>name = ''backend'', color = ''fef2c0'', label.description = ''Backend/data work''\<rparr>,
    \<lparr>name = ''testing'', color = ''d4c5f9'', label.description = ''Testing work''\<rparr>,
    \<lparr>name = ''infrastructure'', color = ''f9d0c4'', label.description = ''CI/CD, DevOps''\<rparr>,
    \<lparr>name = ''pwa'', color = ''5319e7'', label.description = ''PWA related''\<rparr>,
    \<lparr>name = ''i18n'', color = ''bfd4f2'', label.description = ''Internationalization''\<rparr>]\<close>

definition MILESTONES :: "milestone list" where
  \<open>MILESTONES = [
    \<lparr>milestone.title = ''v0.2.0 - Foundation'',
     milestone.description = ''Foundation and Infrastructure + PWA'',
     due_on = None\<rparr>,
    \<lparr>milestone.title = ''v0.3.0 - Core Features'',
     milestone.description = ''Core Feature Enhancements + Settings'',
     due_on = None\<rparr>,
    \<lparr>milestone.title = ''v0.4.0 - Cloud & Analytics'',
     milestone.description = ''Cloud Sync + Analytics and Reporting'',
     due_on = None\<rparr>,
    \<lparr>milestone.title = ''v1.0.0 - Production Release'',
     milestone.description = ''Polish and Production Release'',
     due_on = None\<rparr>]\<close>

definition ISSUES :: "issue list" where
  \<open>ISSUES = [
    \<lparr>issue.title = ''Epic 1: Foundation and Infrastructure'',
     body = ''## Description\<newline>Establish the technical foundation for a production-ready application including proper data persistence, testing infrastructure, and CI/CD.\<newline>\<newline>## Goals\<newline>- Migrate from LocalStorage to IndexedDB for robust data persistence\<newline>- Set up React Query for data management\<newline>- Establish comprehensive testing infrastructure\<newline>- Configure CI/CD pipeline with GitHub Actions\<newline>\<newline>## Success Criteria\<newline>- [ ] All data stored in IndexedDB with migration from LocalStorage\<newline>- [ ] React Query integrated for data operations\<newline>- [ ] >80% test coverage on critical paths\<newline>- [ ] Automated CI/CD pipeline operational\<newline>\<newline>## Stories\<newline>- #2 - IndexedDB Migration\<newline>- #3 - React Query Integration\<newline>- #4 - Testing Infrastructure\<newline>- #5 - CI/CD Setup\<newline>'',
     labels = [''epic'', ''P0-critical'', ''backend'', ''infrastructure''],
     milestone = Some ''v0.2.0 - Foundation''\<rparr>,
    \<lparr>issue.title = ''Migrate from LocalStorage to IndexedDB'',
     body = ''## Description\<newline>Replace LocalStorage with IndexedDB for more robust data persistence that can handle larger datasets and structured queries.\<newline>\<newline>## Business Value\<newline>Enables offline-first functionality, better performance with large datasets, and foundation for future features like search and filtering.\<newline>\<newline>## Acceptance Criteria\<newline>- [ ] All existing data types (income, donation) are stored in IndexedDB\<newline>- [ ] Data is automatically migrated from LocalStorage on first load\<newline>- [ ] Application works offline after initial load\<newline>- [ ] Storage quota warnings are handled gracefully\<newline>- [ ] No data loss during migration\<newline>\<newline>## Sub-tasks\<newline>1. Create IndexedDB service layer [4h]\<newline>   - File: `src/services/db.js`\<newline>   - Define database schema version 1\<newline>   - Create `entries` object store with indexes for `date`, `type`, `amount`\<newline>   - Implement CRUD operations: `addEntry`, `updateEntry`, `deleteEntry`, `getAllEntries`, `getEntriesByDateRange`\<newline>\<newline>2. Implement migration utility [2h]\<newline>   - File: `src/services/migration.js`\<newline>   - Detect existing LocalStorage data\<newline>   - Migrate to IndexedDB with validation\<newline>   - Clear LocalStorage after successful migration\<newline>\<newline>3. Create custom React hooks for data access [3h]\<newline>   - File: `src/hooks/useEntries.js`\<newline>   - `useEntries()` - fetch all entries\<newline>   - `useAddEntry()` - mutation hook\<newline>   - `useUpdateEntry()` - mutation hook\<newline>   - `useDeleteEntry()` - mutation hook\<newline>\<newline>4. Update App.jsx to use new data layer [2h]\<newline>   - Remove LocalStorage functions\<newline>   - Replace with React Query hooks\<newline>   - Add QueryClientProvider wrapper\<newline>\<newline>5. Add error boundaries for data layer failures [1h]\<newline>   - File: `src/components/ErrorBoundary.jsx`\<newline>   - Graceful degradation if IndexedDB unavailable\<newline>\<newline>## Dependencies\<newline>None\<newline>\<newline>## Estimate\<newline>12 hours / 3 story points\<newline>'',
     labels = [''story'', ''P0-critical'', ''backend''],
     milestone = Some ''v0.2.0 - Foundation''\<rparr>,
    \<lparr>issue.title = ''Integrate React Query'',
     body = ''## Description\<newline>Set up React Query for data fetching, caching, and synchronization with IndexedDB.\<newline>\<newline>## Business Value\<newline>Provides consistent data fetching patterns, automatic caching, and prepares for cloud sync integration.\<newline>\<newline>## Acceptance Criteria\<newline>- [ ] QueryClient configured with sensible defaults\<newline>- [ ] All data operations use React Query hooks\<newline>- [ ] Optimistic updates for better UX\<newline>- [ ] Query invalidation works correctly\<newline>- [ ] DevTools available in development\<newline>\<newline>## Sub-tasks\<newline>1. Configure QueryClient [1h]\<newline>   - File: `src/lib/queryClient.js`\<newline>   - Set default staleTime, cacheTime\<newline>   - Configure retry logic\<newline>\<newline>2. Create query keys factory [1h]\<newline>   - File: `src/lib/queryKeys.js`\<newline>   - Consistent key structure\<newline>\<newline>3. Add React Query DevTools [0.5h]\<newline>   - Conditional loading in development\<newline>\<newline>## Dependencies\<newline>Requires: #2 (IndexedDB Migration)\<newline>\<newline>## Estimate\<newline>2.5 hours / 1 story point\<newline>'',
     labels = [''story'', ''P0-critical'', ''backend''],
     milestone = Some ''v0.2.0 - Foundation''\<rparr>,
    \<lparr>issue.title = ''Set Up Testing Infrastructure'',
     body = ''## Description\<newline>Establish testing framework and create initial test suite for critical functionality.\<newline>\<newline>## Business Value\<newline>Ensures reliability, catches regressions, and enables confident refactoring.\<newline>\<newline>## Acceptance Criteria\<newline>- [ ] Vitest configured for unit testing\<newline>- [ ] React Testing Library configured for component tests\<newline>- [ ] At least 80% coverage on data service layer\<newline>- [ ] CI runs tests on every push\<newline>- [ ] Test utilities for common scenarios\<newline>\<newline>## Sub-tasks\<newline>1. Configure Vitest and React Testing Library [2h]\<newline>   - Add dev dependencies\<newline>   - Create `vitest.config.js`\<newline>   - Add test scripts to package.json\<newline>\<newline>2. Create test utilities and mocks [2h]\<newline>   - File: `src/test/utils.jsx`\<newline>   - File: `src/test/mocks/db.js`\<newline>\<newline>3. Write unit tests for data service [3h]\<newline>   - Test IndexedDB CRUD operations\<newline>   - Test migration logic\<newline>\<newline>4. Write component tests for critical paths [4h]\<newline>   - Dashboard calculations\<newline>   - Form validation\<newline>\<newline>## Dependencies\<newline>Requires: #2 (IndexedDB Migration)\<newline>\<newline>## Estimate\<newline>11 hours / 3 story points\<newline>'',
     labels = [''story'', ''P0-critical'', ''testing''],
     milestone = Some ''v0.2.0 - Foundation''\<rparr>,
    \<lparr>issue.title = ''Configure GitHub Actions CI/CD'',
     body = ''## Description\<newline>Set up automated testing and deployment pipeline.\<newline>\<newline>## Business Value\<newline>Ensures code quality, automates deployment, and enables team collaboration.\<newline>\<newline>## Acceptance Criteria\<newline>- [ ] Tests run on every PR\<newline>- [ ] Lint checks run on every PR\<newline>- [ ] Build succeeds before merge\<newline>- [ ] Auto-deploy to GitHub Pages on main branch merge\<newline>- [ ] Branch protection rules configured\<newline>\<newline>## Sub-tasks\<newline>1. Create CI workflow [2h]\<newline>   - File: `.github/workflows/ci.yml`\<newline>   - Run lint, type check, tests\<newline>\<newline>2. Create CD workflow [2h]\<newline>   - File: `.github/workflows/deploy.yml`\<newline>   - Build for production\<newline>   - Deploy to GitHub Pages\<newline>\<newline>3. Configure branch protection [0.5h]\<newline>   - Require PR reviews\<newline>   - Require status checks\<newline>\<newline>## Dependencies\<newline>Requires: #4 (Testing Infrastructure)\<newline>\<newline>## Estimate\<newline>4.5 hours / 1 story point\<newline>'',
     labels = [''story'', ''P0-critical'', ''infrastructure''],
     milestone = Some ''v0.2.0 - Foundation''\<rparr>,
    \<lparr>issue.title = ''Epic 2: PWA and Offline Functionality'',
     body = ''## Description\<newline>Complete PWA implementation for installable, offline-capable application.\<newline>\<newline>## Goals\<newline>- Make app installable on all platforms\<newline>- Enable full offline functionality\<newline>- Add sync status indicators\<newline>- Proper service worker caching\<newline>\<newline>## Success Criteria\<newline>- [ ] App installable on iOS, Android, desktop\<newline>- [ ] Works fully offline after first load\<newline>- [ ] Users see connection status\<newline>- [ ] Auto-updates when new version available\<newline>\<newline>## Stories\<newline>- #6 - Complete PWA Configuration\<newline>- #7 - Offline Status Indicator\<newline>'',
     labels = [''epic'', ''P0-critical'', ''pwa''],
     milestone = Some ''v0.2.0 - Foundation''\<rparr>,
    \<lparr>issue.title = ''Complete PWA Configuration'',
     body = ''## Description\<newline>Finalize PWA manifest and service worker for app installation and offline use.\<newline>\<newline>## Business Value\<newline>Users can install the app on their devices and use it without internet connection.\<newline>\<newline>## Acceptance Criteria\<newline>- [ ] App is installable on iOS, Android, and desktop\<newline>- [ ] Proper icons for all platforms (192px, 512px, maskable)\<newline>- [ ] Splash screen configured\<newline>- [ ] Works offline after first load\<newline>- [ ] Updates automatically when new version available\<newline>\<newline>## Sub-tasks\<newline>1. Create proper PWA icons [2h]\<newline>   - Generate PNG icons: 192x192, 512x512\<newline>   - Create maskable icons for Android\<newline>\<newline>2. Update PWA manifest [1h]\<newline>   - File: `vite.config.js` VitePWA configuration\<newline>   - Add all icon variations\<newline>\<newline>3. Configure service worker caching strategy [2h]\<newline>   - Cache static assets\<newline>   - NetworkFirst for API calls\<newline>\<newline>4. Add PWA install prompt [2h]\<newline>   - File: `src/components/InstallPrompt.jsx`\<newline>   - Detect installability\<newline>\<newline>5. Test PWA on multiple platforms [2h]\<newline>   - iOS Safari, Android Chrome, Desktop\<newline>\<newline>## Dependencies\<newline>Requires: #2 (IndexedDB Migration)\<newline>\<newline>## Estimate\<newline>9 hours / 2 story points\<newline>'',
     labels = [''story'', ''P0-critical'', ''pwa''],
     milestone = Some ''v0.2.0 - Foundation''\<rparr>,
    \<lparr>issue.title = ''Add Offline Status Indicator'',
     body = ''## Description\<newline>Show users their online/offline status and sync state.\<newline>\<newline>## Business Value\<newline>Users understand when data will sync and can trust the app to work offline.\<newline>\<newline>## Acceptance Criteria\<newline>- [ ] Visual indicator when offline\<newline>- [ ] Indicator when data is syncing\<newline>- [ ] Toast notification on connection change\<newline>- [ ] Graceful handling of failed operations\<newline>\<newline>## Sub-tasks\<newline>1. Create online status hook [1h]\<newline>   - File: `src/hooks/useOnlineStatus.js`\<newline>   - Track navigator.onLine\<newline>\<newline>2. Create status indicator component [2h]\<newline>   - File: `src/components/ConnectionStatus.jsx`\<newline>   - Subtle banner when offline\<newline>\<newline>3. Add toast notifications [2h]\<newline>   - Notify on connection loss/recovery\<newline>\<newline>## Dependencies\<newline>Requires: #6 (PWA Configuration)\<newline>\<newline>## Estimate\<newline>5 hours / 1 story point\<newline>'',
     labels = [''story'', ''P0-critical'', ''pwa'', ''frontend''],
     milestone = Some ''v0.2.0 - Foundation''\<rparr>,
    \<lparr>issue.title = ''Epic 3: Core Feature Enhancements'',
     body = ''## Description\<newline>Enhance existing features and add commonly requested functionality.\<newline>\<newline>## Goals\<newline>- Date range filtering for historical data\<newline>- Donation categories for organization\<newline>- Recurring income support\<newline>- Multi-currency support\<newline>\<newline>## Success Criteria\<newline>- [ ] Users can view data for custom date ranges\<newline>- [ ] Donations categorized by recipient type\<newline>- [ ] Automatic recurring income entries\<newline>- [ ] Support for multiple currencies\<newline>\<newline>## Stories\<newline>- #8 - Date Range Filtering\<newline>- #9 - Donation Categories\<newline>- #10 - Recurring Income Support\<newline>- #11 - Multi-Currency Support\<newline>'',
     labels = [''epic'', ''P1-high'', ''frontend'', ''backend''],
     milestone = Some ''v0.3.0 - Core Features''\<rparr>,
    \<lparr>issue.title = ''Add Date Range Filtering'',
     body = ''## Description\<newline>Allow users to view entries and statistics for custom date ranges, not just current month.\<newline>\<newline>## Business Value\<newline>Users can review historical data and track year-to-date obligations.\<newline>\<newline>## Acceptance Criteria\<newline>- [ ] Date range picker on Dashboard and History\<newline>- [ ] Preset options: This month, Last month, This year, Custom\<newline>- [ ] Statistics recalculate for selected range\<newline>- [ ] Selection persists during session\<newline>- [ ] Hebrew/English date formats supported\<newline>\<newline>## Sub-tasks\<newline>1. Create DateRangePicker component [3h]\<newline>   - File: `src/components/DateRangePicker.jsx`\<newline>   - MUI DatePicker integration\<newline>   - Bilingual date formatting\<newline>\<newline>2. Update Dashboard for date filtering [2h]\<newline>   - Accept dateRange prop\<newline>   - Recalculate stats\<newline>\<newline>3. Update History for date filtering [2h]\<newline>   - Filter entries by range\<newline>\<newline>4. Create date range context [1h]\<newline>   - File: `src/contexts/DateRangeContext.jsx`\<newline>   - Share selected range\<newline>\<newline>## Dependencies\<newline>Requires: #2 (IndexedDB Migration)\<newline>\<newline>## Estimate\<newline>8 hours / 2 story points\<newline>'',
     labels = [''story'', ''P1-high'', ''frontend''],
     milestone = Some ''v0.3.0 - Core Features''\<rparr>,
    \<lparr>issue.title = ''Add Categories for Donations'',
     body = ''## Description\<newline>Allow users to categorize donations by recipient type (synagogue, charity, individual, etc.).\<newline>\<newline>## Business Value\<newline>Users can track where their tzedakah goes and report for tax purposes.\<newline>\<newline>## Acceptance Criteria\<newline>- [ ] Predefined categories in Hebrew/English\<newline>- [ ] Optional custom categories\<newline>- [ ] Category selection in donation form\<newline>- [ ] Category visible in History\<newline>- [ ] Filter/group by category in reports\<newline>\<newline>## Sub-tasks\<newline>1. Define category data structure [1h]\<newline>   - Predefined categories with translations\<newline>\<newline>2. Update IndexedDB schema [2h]\<newline>   - Add category field\<newline>   - Migration for existing entries\<newline>\<newline>3. Update AddDonation form [2h]\<newline>   - Category dropdown with icons\<newline>\<newline>4. Update History display [1h]\<newline>   - Show category chip\<newline>\<newline>5. Add category breakdown to Dashboard [2h]\<newline>   - Pie chart or list\<newline>\<newline>## Dependencies\<newline>Requires: #2 (IndexedDB Migration)\<newline>\<newline>## Estimate\<newline>8 hours / 2 story points\<newline>'',
     labels = [''story'', ''P1-high'', ''frontend'', ''backend''],
     milestone = Some ''v0.3.0 - Core Features''\<rparr>,
    \<lparr>issue.title = ''Add Recurring Income Support'',
     body = ''## Description\<newline>Allow users to set up recurring income entries that automatically create entries.\<newline>\<newline>## Business Value\<newline>Reduces manual entry for salaried users, ensures consistent tracking.\<newline>\<newline>## Acceptance Criteria\<newline>- [ ] Define recurring income (monthly, bi-weekly, weekly)\<newline>- [ ] Auto-generate entries on schedule\<newline>- [ ] Edit/delete recurring templates\<newline>- [ ] Visual indicator for auto-generated entries\<newline>- [ ] Option to skip specific occurrences\<newline>\<newline>## Sub-tasks\<newline>1. Design recurring entry schema [2h]\<newline>   - Separate `recurringTemplates` store\<newline>\<newline>2. Create RecurringIncomeForm component [3h]\<newline>   - File: `src/components/RecurringIncome.jsx`\<newline>   - Frequency selector\<newline>\<newline>3. Implement entry generation logic [3h]\<newline>   - File: `src/services/recurring.js`\<newline>   - Check on app load\<newline>\<newline>4. Add recurring section to Dashboard [2h]\<newline>   - Show active recurring entries\<newline>\<newline>## Dependencies\<newline>Requires: #2, #8\<newline>\<newline>## Estimate\<newline>10 hours / 3 story points\<newline>'',
     labels = [''story'', ''P1-high'', ''frontend'', ''backend''],
     milestone = Some ''v0.3.0 - Core Features''\<rparr>,
    \<lparr>issue.title = ''Multi-Currency Support'',
     body = ''## Description\<newline>Allow users to enter income and donations in multiple currencies.\<newline>\<newline>## Business Value\<newline>Users with international income can track accurately without manual conversion.\<newline>\<newline>## Acceptance Criteria\<newline>- [ ] Currency selector in forms (ILS default)\<newline>- [ ] Common currencies: USD, EUR, GBP, ILS\<newline>- [ ] Manual exchange rate entry\<newline>- [ ] All calculations in base currency (ILS)\<newline>- [ ] Display original + converted amounts\<newline>\<newline>## Sub-tasks\<newline>1. Update entry schema for currency [1h]\<newline>   - Add `currency` and `originalAmount` fields\<newline>\<newline>2. Create currency selector component [2h]\<newline>   - File: `src/components/CurrencyInput.jsx`\<newline>\<newline>3. Update forms with currency support [2h]\<newline>   - AddIncome/AddDonation\<newline>\<newline>4. Update Dashboard calculations [2h]\<newline>   - Convert all to base currency\<newline>\<newline>5. Add settings for default currency [1h]\<newline>   - User preference\<newline>\<newline>## Dependencies\<newline>Requires: #2\<newline>\<newline>## Estimate\<newline>8 hours / 2 story points\<newline>'',
     labels = [''story'', ''P1-high'', ''frontend'', ''backend'', ''i18n''],
     milestone = Some ''v0.3.0 - Core Features''\<rparr>,
    \<lparr>issue.title = ''Epic 4: User Preferences and Settings'',
     body = ''## Description\<newline>Add settings screen and user preferences persistence.\<newline>\<newline>## Goals\<newline>- Comprehensive settings page\<newline>- Theme customization (light/dark)\<newline>- Configurable ma'aser percentage\<newline>- Data export/import capabilities\<newline>\<newline>## Success Criteria\<newline>- [ ] Settings page accessible from app bar\<newline>- [ ] All preferences persist across sessions\<newline>- [ ] Users can backup/restore data\<newline>- [ ] Dark mode support\<newline>\<newline>## Stories\<newline>- #12 - Create Settings Screen\<newline>- #13 - Data Export/Import\<newline>'',
     labels = [''epic'', ''P1-high'', ''frontend''],
     milestone = Some ''v0.3.0 - Core Features''\<rparr>,
    \<lparr>issue.title = ''Create Settings Screen'',
     body = ''## Description\<newline>Add a settings page for user preferences.\<newline>\<newline>## Business Value\<newline>Users can customize the app to their needs without changing code.\<newline>\<newline>## Acceptance Criteria\<newline>- [ ] Accessible from app bar menu\<newline>- [ ] Language selection\<newline>- [ ] Default currency\<newline>- [ ] Ma'aser percentage (10% default, allow custom)\<newline>- [ ] Theme selection (light/dark/auto)\<newline>- [ ] Settings persist across sessions\<newline>\<newline>## Sub-tasks\<newline>1. Create Settings component [3h]\<newline>   - File: `src/components/Settings.jsx`\<newline>   - Form with all preferences\<newline>\<newline>2. Create settings context and hook [2h]\<newline>   - File: `src/contexts/SettingsContext.jsx`\<newline>   - Load from DB on mount\<newline>\<newline>3. Add settings navigation [1h]\<newline>   - Settings icon in app bar\<newline>\<newline>4. Implement dark mode [2h]\<newline>   - MUI theme switcher\<newline>\<newline>5. Make ma'aser percentage configurable [2h]\<newline>   - Update calculations\<newline>\<newline>## Dependencies\<newline>Requires: #2\<newline>\<newline>## Estimate\<newline>10 hours / 3 story points\<newline>'',
     labels = [''story'', ''P1-high'', ''frontend''],
     milestone = Some ''v0.3.0 - Core Features''\<rparr>,
    \<lparr>issue.title = ''Add Data Export/Import'',
     body = ''## Description\<newline>Allow users to export and import their data for backup and transfer.\<newline>\<newline>## Business Value\<newline>Users can backup data, transfer to new device, and use data in spreadsheets.\<newline>\<newline>## Acceptance Criteria\<newline>- [ ] Export to JSON file\<newline>- [ ] Export to CSV file\<newline>- [ ] Import from JSON\<newline>- [ ] Merge or replace options\<newline>- [ ] Validation on import\<newline>\<newline>## Sub-tasks\<newline>1. Create export utilities [2h]\<newline>   - File: `src/services/export.js`\<newline>   - Export to JSON/CSV\<newline>\<newline>2. Create import utilities [3h]\<newline>   - File: `src/services/import.js`\<newline>   - Parse and validate\<newline>\<newline>3. Add export/import UI in Settings [2h]\<newline>   - Buttons and file picker\<newline>\<newline>## Dependencies\<newline>Requires: #12\<newline>\<newline>## Estimate\<newline>7 hours / 2 story points\<newline>'',
     labels = [''story'', ''P1-high'', ''backend''],
     milestone = Some ''v0.3.0 - Core Features''\<rparr>,
    \<lparr>issue.title = ''Epic 5: Cloud Sync with Google'',
     body = ''## Description\<newline>Optional Google authentication and cloud backup/sync.\<newline>\<newline>## Goals\<newline>- Google OAuth integration\<newline>- Automatic sync to Google Sheets\<newline>- Multi-device support\<newline>- Cloud backup\<newline>\<newline>## Success Criteria\<newline>- [ ] Users can sign in with Google\<newline>- [ ] Data syncs to Google Sheets\<newline>- [ ] Works across multiple devices\<newline>- [ ] Offline-first with eventual sync\<newline>\<newline>## Stories\<newline>- #14 - Implement Google OAuth\<newline>- #15 - Google Sheets Sync\<newline>'',
     labels = [''epic'', ''P2-medium'', ''backend''],
     milestone = Some ''v0.4.0 - Cloud & Analytics''\<rparr>,
    \<lparr>issue.title = ''Implement Google OAuth'',
     body = ''## Description\<newline>Add Google sign-in for cloud features.\<newline>\<newline>## Business Value\<newline>Users can sync data across devices and have cloud backup.\<newline>\<newline>## Acceptance Criteria\<newline>- [ ] Google sign-in button in settings\<newline>- [ ] OAuth flow completes successfully\<newline>- [ ] User profile displayed when signed in\<newline>- [ ] Sign out functionality\<newline>- [ ] Token refresh handling\<newline>- [ ] Works without sign-in (offline-first)\<newline>\<newline>## Sub-tasks\<newline>1. Configure Google OAuth client [2h]\<newline>   - Create Google Cloud project\<newline>   - Generate client ID\<newline>\<newline>2. Implement OAuth flow [3h]\<newline>   - File: `src/services/auth.js`\<newline>   - Using @react-oauth/google\<newline>\<newline>3. Create AuthContext [2h]\<newline>   - File: `src/contexts/AuthContext.jsx`\<newline>\<newline>4. Add sign-in UI [2h]\<newline>   - Settings integration\<newline>\<newline>## Dependencies\<newline>Requires: #12\<newline>\<newline>## Estimate\<newline>9 hours / 2 story points\<newline>'',
     labels = [''story'', ''P2-medium'', ''backend''],
     milestone = Some ''v0.4.0 - Cloud & Analytics''\<rparr>,
    \<lparr>issue.title = ''Google Sheets Sync'',
     body = ''## Description\<newline>Sync data to Google Sheets for backup and advanced analysis.\<newline>\<newline>## Business Value\<newline>Users get automatic cloud backup and can analyze data in familiar spreadsheet interface.\<newline>\<newline>## Acceptance Criteria\<newline>- [ ] Create dedicated spreadsheet on first sync\<newline>- [ ] Bi-directional sync\<newline>- [ ] Conflict resolution (last-write-wins)\<newline>- [ ] Manual sync trigger\<newline>- [ ] Sync status indicator\<newline>\<newline>## Sub-tasks\<newline>1. Implement Google Sheets API integration [4h]\<newline>   - File: `src/services/sheets.js`\<newline>\<newline>2. Create sync engine [4h]\<newline>   - File: `src/services/sync.js`\<newline>   - Track changes\<newline>\<newline>3. Add sync UI [2h]\<newline>   - Sync button, status\<newline>\<newline>4. Handle offline sync [2h]\<newline>   - Queue changes\<newline>\<newline>## Dependencies\<newline>Requires: #14\<newline>\<newline>## Estimate\<newline>12 hours / 3 story points\<newline>'',
     labels = [''story'', ''P2-medium'', ''backend''],
     milestone = Some ''v0.4.0 - Cloud & Analytics''\<rparr>,
    \<lparr>issue.title = ''Epic 6: Analytics and Reporting'',
     body = ''## Description\<newline>Add comprehensive reporting and analytics features.\<newline>\<newline>## Goals\<newline>- Monthly/yearly summary reports\<newline>- Tax-ready documentation\<newline>- Charts and visualizations\<newline>- PDF export\<newline>\<newline>## Success Criteria\<newline>- [ ] Generate monthly/yearly reports\<newline>- [ ] Tax reports with proper formatting\<newline>- [ ] Print-friendly layouts\<newline>- [ ] Hebrew/English reports\<newline>\<newline>## Stories\<newline>- #16 - Monthly/Yearly Reports\<newline>- #17 - Tax Report Generation\<newline>'',
     labels = [''epic'', ''P2-medium'', ''frontend''],
     milestone = Some ''v0.4.0 - Cloud & Analytics''\<rparr>,
    \<lparr>issue.title = ''Monthly/Yearly Reports'',
     body = ''## Description\<newline>Generate summary reports for different time periods.\<newline>\<newline>## Business Value\<newline>Users can review giving patterns and prepare for tax reporting.\<newline>\<newline>## Acceptance Criteria\<newline>- [ ] Monthly summary view\<newline>- [ ] Yearly summary view\<newline>- [ ] Print-friendly format\<newline>- [ ] PDF export option\<newline>- [ ] Hebrew/English reports\<newline>\<newline>## Sub-tasks\<newline>1. Create ReportView component [4h]\<newline>   - File: `src/components/Reports.jsx`\<newline>\<newline>2. Add charts [3h]\<newline>   - Income vs donation over time\<newline>\<newline>3. Implement PDF export [3h]\<newline>   - Install jsPDF\<newline>\<newline>4. Add reports navigation [1h]\<newline>\<newline>## Dependencies\<newline>Requires: #8\<newline>\<newline>## Estimate\<newline>11 hours / 3 story points\<newline>'',
     labels = [''story'', ''P2-medium'', ''frontend''],
     milestone = Some ''v0.4.0 - Cloud & Analytics''\<rparr>,
    \<lparr>issue.title = ''Tax Report Generation'',
     body = ''## Description\<newline>Generate reports suitable for tax deduction documentation.\<newline>\<newline>## Business Value\<newline>Users can easily provide documentation for charitable donation tax deductions.\<newline>\<newline>## Acceptance Criteria\<newline>- [ ] Summary by recipient/category\<newline>- [ ] Totals by tax year\<newline>- [ ] Print-ready format\<newline>- [ ] Include donation dates and amounts\<newline>- [ ] Option to include notes\<newline>\<newline>## Sub-tasks\<newline>1. Create TaxReport component [4h]\<newline>   - File: `src/components/TaxReport.jsx`\<newline>\<newline>2. Add tax-specific formatting [2h]\<newline>   - Formal document layout\<newline>\<newline>3. PDF generation [2h]\<newline>   - Receipt numbers\<newline>\<newline>## Dependencies\<newline>Requires: #16, #9\<newline>\<newline>## Estimate\<newline>8 hours / 2 story points\<newline>'',
     labels = [''story'', ''P2-medium'', ''frontend''],
     milestone = Some ''v0.4.0 - Cloud & Analytics''\<rparr>,
    \<lparr>issue.title = ''Epic 7: Polish and UX Improvements'',
     body = ''## Description\<newline>UI/UX refinements and accessibility improvements.\<newline>\<newline>## Goals\<newline>- WCAG 2.1 AA compliance\<newline>- Smooth animations\<newline>- Mobile haptic feedback\<newline>- Professional polish\<newline>\<newline>## Success Criteria\<newline>- [ ] Passes accessibility audit\<newline>- [ ] Smooth transitions throughout\<newline>- [ ] Mobile-optimized experience\<newline>\<newline>## Stories\<newline>- #18 - Improve Accessibility\<newline>- #19 - Add Animations and Transitions\<newline>- #20 - Haptic Feedback (Mobile)\<newline>'',
     labels = [''epic'', ''P3-low'', ''frontend''],
     milestone = Some ''v1.0.0 - Production Release''\<rparr>,
    \<lparr>issue.title = ''Improve Accessibility'',
     body = ''## Description\<newline>Ensure app meets WCAG 2.1 AA standards.\<newline>\<newline>## Acceptance Criteria\<newline>- [ ] All interactive elements keyboard accessible\<newline>- [ ] Proper ARIA labels\<newline>- [ ] Color contrast compliance\<newline>- [ ] Screen reader compatible\<newline>- [ ] Focus management\<newline>\<newline>## Sub-tasks\<newline>1. Audit current accessibility [2h]\<newline>2. Fix contrast issues [2h]\<newline>3. Add ARIA labels [2h]\<newline>4. Test with screen reader [2h]\<newline>\<newline>## Estimate\<newline>8 hours / 2 story points\<newline>'',
     labels = [''story'', ''P3-low'', ''frontend''],
     milestone = Some ''v1.0.0 - Production Release''\<rparr>,
    \<lparr>issue.title = ''Add Animations and Transitions'',
     body = ''## Description\<newline>Subtle animations to improve perceived performance and UX.\<newline>\<newline>## Acceptance Criteria\<newline>- [ ] Page transitions\<newline>- [ ] Card hover effects\<newline>- [ ] Loading skeletons\<newline>- [ ] Success/error animations\<newline>\<newline>## Sub-tasks\<newline>1. Add MUI transitions [2h]\<newline>2. Create loading skeletons [2h]\<newline>3. Add micro-interactions [2h]\<newline>\<newline>## Estimate\<newline>6 hours / 1 story point\<newline>'',
     labels = [''story'', ''P3-low'', ''frontend''],
     milestone = Some ''v1.0.0 - Production Release''\<rparr>,
    \<lparr>issue.title = ''Haptic Feedback (Mobile)'',
     body = ''## Description\<newline>Add vibration feedback for actions on mobile.\<newline>\<newline>## Acceptance Criteria\<newline>- [ ] Vibrate on entry save\<newline>- [ ] Vibrate on delete\<newline>- [ ] Optional in settings\<newline>\<newline>## Estimate\<newline>2 hours / 0.5 story points\<newline>'',
     labels = [''story'', ''P3-low'', ''frontend''],
     milestone = Some ''v1.0.0 - Production Release''\<rparr>]\<close>

section \<open>The external tool and the state of a run\<close>

text \<open>
  \<^verbatim>\<open>subprocess.run(["gh"] + args, capture_output=True, text=True, check=True)\<close> starts
  one process, waits for it and gives its exit code and its captured output; with
  \<^verbatim>\<open>check=True\<close> an exit code other than 0 raises \<^verbatim>\<open>CalledProcessError\<close>, which carries
  the captured error text. The tool is a parameter of the model: what the process
  started as the \<open>n\<close>-th of the run (counting from 0) with the argument vector \<open>argv\<close>
  answers. The model starts where the process has been started and its output has been
  decoded as text: an executable that is missing is outside it.
\<close>

record completed_process =
  returncode :: int
  stdout :: string
  stderr :: string

type_synonym gh_tool = "nat \<Rightarrow> string list \<Rightarrow> completed_process"

text \<open>
  The state of a run: the argument vectors of the processes started so far, and the
  texts printed so far to the standard output and to the standard error (one entry for
  each call of \<^verbatim>\<open>print\<close>, without the final newline that \<^verbatim>\<open>print\<close> adds).
\<close>

record state =
  calls :: "string list list"
  out :: "string list"
  err :: "string list"

definition init :: state where
  "init = \<lparr>calls = [], out = [], err = []\<rparr>"

definition print :: "string \<Rightarrow> state \<Rightarrow> state" where
  "print x s = s\<lparr>out := out s @ [x]\<rparr>"

definition print_stderr :: "string \<Rightarrow> state \<Rightarrow> state" where
  "print_stderr x s = s\<lparr>err := err s @ [x]\<rparr>"

section \<open>The driver\<close>

definition run_gh_command :: "gh_tool \<Rightarrow> string list \<Rightarrow> state \<Rightarrow> string option \<times> state" where
  "run_gh_command gh args s =
     (let argv = ''gh'' # args;
          result = gh (length (calls s)) argv;
          s' = s\<lparr>calls := calls s @ [argv]\<rparr>
      in if returncode result = 0 then (Some (strip (stdout result)), s')
         else (None, print_stderr (''Error running gh command: '' @ stderr result) s'))"

text \<open>The body of the loop of \<^verbatim>\<open>create_labels\<close>, for one label.\<close>

definition create_labels_body :: "gh_tool \<Rightarrow> label \<Rightarrow> state \<Rightarrow> state" where
  "create_labels_body gh label s =
     (case run_gh_command gh
        [''label'', ''create'',
         name label,
         ''--color'', color label,
         ''--description'', label.description label,
         ''--repo'', OWNER @ ''/'' @ REPO,
         ''--force''] s of
       (result, s') \<Rightarrow>
         if result \<noteq> None then print (''  '' @ check_mark @ '' Created label: '' @ name label) s'
         else s')"

fun create_labels_loop :: "gh_tool \<Rightarrow> label list \<Rightarrow> state \<Rightarrow> state" where
  "create_labels_loop gh [] s = s"
| "create_labels_loop gh (label # rest) s =
     create_labels_loop gh rest (create_labels_body gh label s)"

definition create_labels :: "gh_tool \<Rightarrow> state \<Rightarrow> state" where
  "create_labels gh s = create_labels_loop gh LABELS (print ''Creating labels...'' s)"

text \<open>
  The body of the loop of \<^verbatim>\<open>create_milestones\<close>, for one milestone \<open>m\<close>. \<^verbatim>\<open>if result:\<close>
  holds for a text that is neither \<^verbatim>\<open>None\<close> nor empty. An exception of the decoder or
  of the subscript is not caught: it ends the loop, and the run.
\<close>

definition create_milestones_body ::
  "'j pylib \<Rightarrow> gh_tool \<Rightarrow> milestone \<Rightarrow> (string \<times> 'j) list \<Rightarrow> state
    \<Rightarrow> (error + (string \<times> 'j) list) \<times> state" where
  "create_milestones_body L gh m milestone_numbers s =
     (case run_gh_command gh
        [''api'',
         ''/repos/'' @ OWNER @ ''/'' @ REPO @ ''/milestones'',
         ''-f'', ''title='' @ milestone.title m,
         ''-f'', ''description='' @ milestone.description m,
         ''-f'', ''state=open''] s of
       (result, s') \<Rightarrow>
         (case result of
            None \<Rightarrow> (Inr milestone_numbers, s')
          | Some r \<Rightarrow>
              if r \<noteq> [] then
                (case json_loads L r of
                   Inl e \<Rightarrow> (Inl e, s')
                 | Inr data \<Rightarrow>
                     (case getitem L data ''number'' of
                        Inl e \<Rightarrow> (Inl e, s')
                      | Inr number \<Rightarrow>
                          (Inr (AList.update (milestone.title m) number milestone_numbers),
                           print (''  '' @ check_mark @ '' Created milestone: ''
                                  @ milestone.title m @ '' (#'' @ str L number @ '')'') s')))
              else (Inr milestone_numbers, s')))"

fun create_milestones_loop ::
  "'j pylib \<Rightarrow> gh_tool \<Rightarrow> milestone list \<Rightarrow> (string \<times> 'j) list \<Rightarrow> state
    \<Rightarrow> (error + (string \<times> 'j) list) \<times> state" where
  "create_milestones_loop L gh [] milestone_numbers s = (Inr milestone_numbers, s)"
| "create_milestones_loop L gh (m # rest) milestone_numbers s =
     (case create_milestones_body L gh m milestone_numbers s of
        (Inl e, s') \<Rightarrow> (Inl e, s')
      | (Inr milestone_numbers', s') \<Rightarrow> create_milestones_loop L gh rest milestone_numbers' s')"

definition create_milestones ::
  "'j pylib \<Rightarrow> gh_tool \<Rightarrow> state \<Rightarrow> (error + (string \<times> 'j) list) \<times> state" where
  "create_milestones L gh s =
     create_milestones_loop L gh MILESTONES [] (print ''\<newline>Creating milestones...'' s)"

text \<open>
  The body of the loop of \<^verbatim>\<open>create_issues\<close>, for one issue (the counter of
  \<^verbatim>\<open>enumerate\<close> is not used by the source). A dictionary is an association list in
  insertion order: \<^const>\<open>AList.update\<close> replaces the value of a key in place and
  appends a new key, as an assignment to a \<^verbatim>\<open>dict\<close> does.
\<close>

definition milestone_arg :: "'j pylib \<Rightarrow> (string \<times> 'j) list \<Rightarrow> issue \<Rightarrow> string list" where
  "milestone_arg L milestone_numbers issue =
     (case milestone issue of
        None \<Rightarrow> []
      | Some t \<Rightarrow>
          (case map_of milestone_numbers t of
             None \<Rightarrow> []
           | Some number \<Rightarrow> [''--milestone'', str L number]))"

definition create_issues_body ::
  "'j pylib \<Rightarrow> gh_tool \<Rightarrow> (string \<times> 'j) list \<Rightarrow> issue \<Rightarrow> (string \<times> string) list \<Rightarrow> state
    \<Rightarrow> (string \<times> string) list \<times> state" where
  "create_issues_body L gh milestone_numbers issue issue_numbers s =
     (let labels_arg = join '','' (labels issue);
          args = [''issue'', ''create'',
                  ''--title'', issue.title issue,
                  ''--body'', body issue,
                  ''--label'', labels_arg,
                  ''--repo'', OWNER @ ''/'' @ REPO] @ milestone_arg L milestone_numbers issue
      in case run_gh_command gh args s of
           (result, s') \<Rightarrow>
             (case result of
                None \<Rightarrow> (issue_numbers, s')
              | Some r \<Rightarrow>
                  if r \<noteq> [] then
                    (let issue_number = last (split CHR ''/'' r)
                     in (AList.update (issue.title issue) issue_number issue_numbers,
                         print (''  '' @ check_mark @ '' Created issue #'' @ issue_number
                                @ '': '' @ issue.title issue) s'))
                  else (issue_numbers, s')))"

fun create_issues_loop ::
  "'j pylib \<Rightarrow> gh_tool \<Rightarrow> (string \<times> 'j) list \<Rightarrow> issue list \<Rightarrow> (string \<times> string) list \<Rightarrow> state
    \<Rightarrow> (string \<times> string) list \<times> state" where
  "create_issues_loop L gh milestone_numbers [] issue_numbers s = (issue_numbers, s)"
| "create_issues_loop L gh milestone_numbers (issue # rest) issue_numbers s =
     (case create_issues_body L gh milestone_numbers issue issue_numbers s of
        (issue_numbers', s') \<Rightarrow> create_issues_loop L gh milestone_numbers rest issue_numbers' s')"

definition create_issues ::
  "'j pylib \<Rightarrow> gh_tool \<Rightarrow> (string \<times> 'j) list \<Rightarrow> state \<Rightarrow> (string \<times> string) list \<times> state" where
  "create_issues L gh milestone_numbers s =
     create_issues_loop L gh milestone_numbers ISSUES [] (print ''\<newline>Creating issues...'' s)"

text \<open>
  \<^verbatim>\<open>main\<close>: the three phases and the summary. An exception raised in the milestone
  phase leaves \<^verbatim>\<open>main\<close> at once.
\<close>

definition main :: "'j pylib \<Rightarrow> gh_tool \<Rightarrow> state \<Rightarrow> (error + unit) \<times> state" where
  "main L gh s =
     (let s0 = print (''Setting up GitHub issues for '' @ OWNER @ ''/'' @ REPO @ ''\<newline>'') s;
          s1 = create_labels gh s0
      in case create_milestones L gh s1 of
           (Inl e, s2) \<Rightarrow> (Inl e, s2)
         | (Inr milestone_numbers, s2) \<Rightarrow>
             (case create_issues L gh milestone_numbers s2 of
                (issue_numbers, s3) \<Rightarrow>
                  (Inr (),
                   print (''\<newline>View at: https://github.com/'' @ OWNER @ ''/'' @ REPO @ ''/issues'')
                   (print (''   Created '' @ str_nat (length issue_numbers) @ '' issues'')
                   (print (''   Created '' @ str_nat (length MILESTONES) @ '' milestones'')
                   (print (''   Created '' @ str_nat (length LABELS) @ '' labels'')
                   (print (''\<newline>'' @ check_mark_button @ '' Setup complete!'') s3)))))))"



section \<open>What the driver is expected to do\<close>

text \<open>The argument vector of the process started for a label.\<close>

definition label_argv :: "label \<Rightarrow> string list" where
  "label_argv label =
     [''gh'', ''label'', ''create'', name label, ''--color'', color label,
      ''--description'', label.description label, ''--repo'', ''DubiWork/maaser-tracker'',
      ''--force'']"

text \<open>The argument vector of the process started for a milestone.\<close>

definition milestone_argv :: "milestone \<Rightarrow> string list" where
  "milestone_argv m =
     [''gh'', ''api'', ''/repos/DubiWork/maaser-tracker/milestones'',
      ''-f'', ''title='' @ milestone.title m,
      ''-f'', ''description='' @ milestone.description m,
      ''-f'', ''state=open'']"

text \<open>
  The argument vector of the process started for an issue, without its milestone
  argument.
\<close>

definition issue_argv :: "issue \<Rightarrow> string list" where
  "issue_argv issue =
     [''gh'', ''issue'', ''create'', ''--title'', issue.title issue, ''--body'', body issue,
      ''--label'', join '','' (labels issue), ''--repo'', ''DubiWork/maaser-tracker'']"

text \<open>
  The error texts a run writes: for the processes started as the \<open>n\<close>-th and the following
  ones with the given argument vectors, one line for each process that exits with a
  code other than 0, in the order of the processes.
\<close>

fun reported :: "gh_tool \<Rightarrow> nat \<Rightarrow> string list list \<Rightarrow> string list" where
  "reported gh n [] = []"
| "reported gh n (argv # rest) =
     (if returncode (gh n argv) \<noteq> 0
      then [''Error running gh command: '' @ stderr (gh n argv)] else [])
     @ reported gh (Suc n) rest"

text \<open>
  A text decodes when \<^verbatim>\<open>json.loads\<close> accepts it and the decoded value has an item
  \<^verbatim>\<open>'number'\<close>. The output of a milestone process is in order when it is a failure, or
  empty after trimming, or a text that decodes.
\<close>

definition decodes :: "'j pylib \<Rightarrow> string \<Rightarrow> bool" where
  "decodes L r =
     (case json_loads L r of
        Inl e \<Rightarrow> False
      | Inr data \<Rightarrow> (case getitem L data ''number'' of Inl e \<Rightarrow> False | Inr number \<Rightarrow> True))"

definition milestone_output_ok :: "'j pylib \<Rightarrow> completed_process \<Rightarrow> bool" where
  "milestone_output_ok L p =
     (returncode p = 0 \<and> strip (stdout p) \<noteq> [] \<longrightarrow> decodes L (strip (stdout p)))"


text \<open>The state keeps, for each failed process so far, its error text.\<close>

definition consistent :: "gh_tool \<Rightarrow> state \<Rightarrow> bool" where
  "consistent gh s = (err s = reported gh 0 (calls s))"

section \<open>A decoder for examples\<close>

text \<open>
  To run the model on examples, the library parameter is instantiated with a decoder
  for a fragment of JSON: objects, arrays, strings of printable ASCII characters
  without escapes, integers, \<^verbatim>\<open>true\<close>, \<^verbatim>\<open>false\<close> and \<^verbatim>\<open>null\<close>, with white space between
  the tokens. On a text of the fragment it gives what \<^verbatim>\<open>json.loads\<close> gives; a text with
  a fraction, an exponent, an escape or a character outside ASCII is outside the
  fragment and is rejected here. A decoded value is subscripted and formatted as Python
  does it for \<^verbatim>\<open>dict\<close>, \<^verbatim>\<open>list\<close>, \<^verbatim>\<open>str\<close>, \<^verbatim>\<open>int\<close>, \<^verbatim>\<open>bool\<close> and \<^verbatim>\<open>None\<close>.
\<close>

datatype json =
    JNull
  | JBool bool
  | JInt int
  | JString string
  | JArray "json list"
  | JObject "(string \<times> json) list"

definition json_ws :: "char \<Rightarrow> bool" where
  "json_ws c = (c = CHR '' '' \<or> c = CHR 0x09 \<or> c = CHR 0x0A \<or> c = CHR 0x0D)"

definition is_digit :: "char \<Rightarrow> bool" where
  "is_digit c = (c \<in> set ''0123456789'')"

definition digit_value :: "char \<Rightarrow> nat" where
  "digit_value c = of_char c - 48"

definition nat_of_digits :: "string \<Rightarrow> nat" where
  "nat_of_digits ds = foldl (\<lambda>n c. 10 * n + digit_value c) 0 ds"

text \<open>An unsigned integer: \<open>0\<close>, or a digit from 1 to 9 and more digits.\<close>

definition parse_nat :: "string \<Rightarrow> (nat \<times> string) option" where
  "parse_nat s =
     (case s of
        [] \<Rightarrow> None
      | c # cs \<Rightarrow>
          if c = CHR ''0'' then Some (0, cs)
          else if is_digit c then
            Some (nat_of_digits (c # takeWhile is_digit cs), dropWhile is_digit cs)
          else None)"

definition in_fragment_tail :: "string \<Rightarrow> bool" where
  "in_fragment_tail s = (case s of [] \<Rightarrow> True | c # cs \<Rightarrow> c \<noteq> CHR ''.'' \<and> c \<noteq> CHR ''e'' \<and> c \<noteq> CHR ''E'')"

definition parse_int :: "string \<Rightarrow> (int \<times> string) option" where
  "parse_int s =
     (case s of
        [] \<Rightarrow> None
      | c # cs \<Rightarrow>
          (case (if c = CHR ''-'' then parse_nat cs else parse_nat s) of
             None \<Rightarrow> None
           | Some (n, rest) \<Rightarrow>
               if in_fragment_tail rest
               then Some (if c = CHR ''-'' then - int n else int n, rest)
               else None))"

definition string_char :: "char \<Rightarrow> bool" where
  "string_char c =
     ((32::nat) \<le> of_char c \<and> of_char c \<le> (126::nat) \<and> c \<noteq> CHR 0x22 \<and> c \<noteq> CHR 0x5C)"

text \<open>The text after an opening quotation mark, up to the closing one.\<close>

definition parse_string_body :: "string \<Rightarrow> (string \<times> string) option" where
  "parse_string_body s =
     (case dropWhile string_char s of
        [] \<Rightarrow> None
      | c # rest \<Rightarrow> if c = CHR 0x22 then Some (takeWhile string_char s, rest) else None)"

fun parse_value :: "nat \<Rightarrow> string \<Rightarrow> (json \<times> string) option"
  and parse_elements :: "nat \<Rightarrow> json list \<Rightarrow> string \<Rightarrow> (json \<times> string) option"
  and parse_members :: "nat \<Rightarrow> (string \<times> json) list \<Rightarrow> string \<Rightarrow> (json \<times> string) option"
where
  "parse_value 0 s = None"
| "parse_value (Suc n) s =
     (case s of
        [] \<Rightarrow> None
      | c # cs \<Rightarrow>
          if c = CHR 0x22 then
            (case parse_string_body cs of
               None \<Rightarrow> None
             | Some (t, rest) \<Rightarrow> Some (JString t, rest))
          else if c = CHR ''['' then
            (case dropWhile json_ws cs of
               [] \<Rightarrow> None
             | d # ds \<Rightarrow>
                 if d = CHR '']'' then Some (JArray [], ds)
                 else parse_elements n [] (d # ds))
          else if c = CHR ''{'' then
            (case dropWhile json_ws cs of
               [] \<Rightarrow> None
             | d # ds \<Rightarrow>
                 if d = CHR ''}'' then Some (JObject [], ds)
                 else parse_members n [] (d # ds))
          else if take 4 s = ''null'' then Some (JNull, drop 4 s)
          else if take 4 s = ''true'' then Some (JBool True, drop 4 s)
          else if take 5 s = ''false'' then Some (JBool False, drop 5 s)
          else
            (case parse_int s of
               None \<Rightarrow> None
             | Some (i, rest) \<Rightarrow> Some (JInt i, rest)))"
| "parse_elements 0 acc s = None"
| "parse_elements (Suc n) acc s =
     (case parse_value n s of
        None \<Rightarrow> None
      | Some (v, rest) \<Rightarrow>
          (case dropWhile json_ws rest of
             [] \<Rightarrow> None
           | c # cs \<Rightarrow>
               if c = CHR '']'' then Some (JArray (acc @ [v]), cs)
               else if c = CHR '','' then parse_elements n (acc @ [v]) (dropWhile json_ws cs)
               else None))"
| "parse_members 0 acc s = None"
| "parse_members (Suc n) acc s =
     (case s of
        [] \<Rightarrow> None
      | q # qs \<Rightarrow>
          if q \<noteq> CHR 0x22 then None
          else
            (case parse_string_body qs of
               None \<Rightarrow> None
             | Some (k, rest) \<Rightarrow>
                 (case dropWhile json_ws rest of
                    [] \<Rightarrow> None
                  | c # cs \<Rightarrow>
                      if c \<noteq> CHR '':'' then None
                      else
                        (case parse_value n (dropWhile json_ws cs) of
                           None \<Rightarrow> None
                         | Some (v, rest') \<Rightarrow>
                             (case dropWhile json_ws rest' of
                                [] \<Rightarrow> None
                              | e # es \<Rightarrow>
                                  if e = CHR ''}'' then Some (JObject (AList.update k v acc), es)
                                  else if e = CHR '','' then
                                    parse_members n (AList.update k v acc) (dropWhile json_ws es)
                                  else None)))))"

text \<open>
  The whole text is one value between optional white space. The bound on the depth of
  the recursion is the length of the text: each call reads at least one character.
\<close>

definition loads :: "string \<Rightarrow> error + json" where
  "loads s =
     (case parse_value (Suc (length s)) (dropWhile json_ws s) of
        None \<Rightarrow> Inl JSONDecodeError
      | Some (v, rest) \<Rightarrow> if dropWhile json_ws rest = [] then Inr v else Inl JSONDecodeError)"

definition subscript :: "json \<Rightarrow> string \<Rightarrow> error + json" where
  "subscript v key =
     (case v of
        JObject members \<Rightarrow>
          (case map_of members key of None \<Rightarrow> Inl KeyError | Some x \<Rightarrow> Inr x)
      | _ \<Rightarrow> Inl TypeError)"

definition str_int :: "int \<Rightarrow> string" where
  "str_int i = (if i < 0 then ''-'' @ str_nat (nat (- i)) else str_nat (nat i))"

definition repr_string :: "string \<Rightarrow> string" where
  "repr_string s =
     (if CHR 0x27 \<in> set s then [CHR 0x22] @ s @ [CHR 0x22] else [CHR 0x27] @ s @ [CHR 0x27])"

fun repr :: "json \<Rightarrow> string" where
  "repr JNull = ''None''"
| "repr (JBool b) = (if b then ''True'' else ''False'')"
| "repr (JInt i) = str_int i"
| "repr (JString s) = repr_string s"
| "repr (JArray vs) = ''['' @ join '', '' (map repr vs) @ '']''"
| "repr (JObject members) =
     ''{'' @ join '', '' (map (\<lambda>(k, v). repr_string k @ '': '' @ repr v) members) @ ''}''"

definition str_json :: "json \<Rightarrow> string" where
  "str_json v = (case v of JString s \<Rightarrow> s | _ \<Rightarrow> repr v)"

definition pylib_fragment :: "json pylib" where
  "pylib_fragment = \<lparr>json_loads = loads, getitem = subscript, str = str_json\<rparr>"

section \<open>Tools for examples\<close>

definition exited :: "int \<Rightarrow> string \<Rightarrow> string \<Rightarrow> completed_process" where
  "exited rc output diagnostics = \<lparr>returncode = rc, stdout = output, stderr = diagnostics\<rparr>"

text \<open>
  A tool that always succeeds: it prints nothing for a label, a milestone object with
  the number 7 for a milestone and the address of issue 42 for an issue.
\<close>

definition gh_succeeds :: gh_tool where
  \<open>gh_succeeds n argv =
     (if take 2 argv = [''gh'', ''api'']
      then exited 0 ''{"number": 7, "title": "v0.2.0 - Foundation", "state": "open"}\<newline>'' []
      else if take 2 argv = [''gh'', ''issue'']
      then exited 0 ''https://github.com/DubiWork/maaser-tracker/issues/42\<newline>'' []
      else exited 0 [] [])\<close>

text \<open>A tool that always fails, with exit code 1 and an error text.\<close>

definition gh_fails :: gh_tool where
  "gh_fails n argv = exited 1 [] ''HTTP 401: Bad credentials''"

text \<open>
  A tool that fails for the milestone \<^verbatim>\<open>v0.3.0 - Core Features\<close> with exit code 1 and
  succeeds for every other process.
\<close>

definition gh_partial :: gh_tool where
  "gh_partial n argv =
     (if take 2 argv = [''gh'', ''api''] \<and> ''title=v0.3.0 - Core Features'' \<in> set argv
      then exited 1 [] ''HTTP 422: Validation Failed''
      else gh_succeeds n argv)"

text \<open>
  Tools whose milestone processes succeed with an output that is not a milestone
  object: a text that is not JSON, a JSON array, and a JSON object without the member
  \<^verbatim>\<open>number\<close>. Every other process succeeds with empty output.
\<close>

definition gh_milestone_output :: "string \<Rightarrow> gh_tool" where
  "gh_milestone_output output n argv =
     (if take 2 argv = [''gh'', ''api''] then exited 0 output [] else exited 0 [] [])"





section \<open>Properties of the text operations\<close>


lemma split_from_no_sep: "sep \<notin> set t \<Longrightarrow> split_from sep acc t = [rev acc @ t]"
  by (induction t arbitrary: acc) auto

lemma split_from_append:
  "sep \<notin> set x \<Longrightarrow> split_from sep acc (x @ sep # r) = (rev acc @ x) # split_from sep [] r"
  by (induction x arbitrary: acc) auto








lemma split_join:
  "xs \<noteq> [] \<Longrightarrow> \<forall>x\<in>set xs. sep \<notin> set x \<Longrightarrow> split sep (join [sep] xs) = xs"
proof (induction "[sep]" xs rule: join.induct)
  case 1
  then show ?case by simp
next
  case (2 x)
  then show ?case by (simp add: split_def split_from_no_sep)
next
  case (3 x y ys)
  then show ?case by (simp add: split_def split_from_append)
qed




section \<open>The steps of the driver, unfolded\<close>


lemma run_gh_command_eq:
  "run_gh_command gh args s =
     (if returncode (gh (length (calls s)) (''gh'' # args)) = 0
      then (Some (strip (stdout (gh (length (calls s)) (''gh'' # args)))),
            s\<lparr>calls := calls s @ [''gh'' # args]\<rparr>)
      else (None,
            s\<lparr>calls := calls s @ [''gh'' # args],
              err := err s @ [''Error running gh command: ''
                              @ stderr (gh (length (calls s)) (''gh'' # args))]\<rparr>))"
  by (simp add: run_gh_command_def Let_def print_stderr_def)

lemma create_labels_body_eq:
  "create_labels_body gh label s =
     (if returncode (gh (length (calls s)) (label_argv label)) = 0
      then s\<lparr>calls := calls s @ [label_argv label],
             out := out s @ [''  '' @ check_mark @ '' Created label: '' @ name label]\<rparr>
      else s\<lparr>calls := calls s @ [label_argv label],
             err := err s @ [''Error running gh command: ''
                             @ stderr (gh (length (calls s)) (label_argv label))]\<rparr>)"
  by (simp add: create_labels_body_def run_gh_command_eq label_argv_def OWNER_def REPO_def
      print_def)

lemma create_milestones_body_eq:
  "create_milestones_body L gh m mn s =
     (if returncode (gh (length (calls s)) (milestone_argv m)) \<noteq> 0
      then (Inr mn,
            s\<lparr>calls := calls s @ [milestone_argv m],
              err := err s @ [''Error running gh command: ''
                              @ stderr (gh (length (calls s)) (milestone_argv m))]\<rparr>)
      else if strip (stdout (gh (length (calls s)) (milestone_argv m))) = []
      then (Inr mn, s\<lparr>calls := calls s @ [milestone_argv m]\<rparr>)
      else
        (case json_loads L (strip (stdout (gh (length (calls s)) (milestone_argv m)))) of
           Inl e \<Rightarrow> (Inl e, s\<lparr>calls := calls s @ [milestone_argv m]\<rparr>)
         | Inr data \<Rightarrow>
             (case getitem L data ''number'' of
                Inl e \<Rightarrow> (Inl e, s\<lparr>calls := calls s @ [milestone_argv m]\<rparr>)
              | Inr number \<Rightarrow>
                  (Inr (AList.update (milestone.title m) number mn),
                   s\<lparr>calls := calls s @ [milestone_argv m],
                     out := out s @ [''  '' @ check_mark @ '' Created milestone: ''
                                     @ milestone.title m @ '' (#'' @ str L number @ '')'']\<rparr>))))"
  by (simp add: create_milestones_body_def run_gh_command_eq milestone_argv_def OWNER_def
      REPO_def print_def split: sum.splits)

lemma create_issues_body_eq:
  "create_issues_body L gh mn issue inums s =
     (if returncode (gh (length (calls s)) (issue_argv issue @ milestone_arg L mn issue)) \<noteq> 0
      then (inums,
            s\<lparr>calls := calls s @ [issue_argv issue @ milestone_arg L mn issue],
              err := err s @ [''Error running gh command: ''
                   @ stderr (gh (length (calls s)) (issue_argv issue @ milestone_arg L mn issue))]\<rparr>)
      else if strip (stdout (gh (length (calls s)) (issue_argv issue @ milestone_arg L mn issue))) = []
      then (inums, s\<lparr>calls := calls s @ [issue_argv issue @ milestone_arg L mn issue]\<rparr>)
      else
        (AList.update (issue.title issue)
           (last (split CHR ''/''
              (strip (stdout (gh (length (calls s)) (issue_argv issue @ milestone_arg L mn issue))))))
           inums,
         s\<lparr>calls := calls s @ [issue_argv issue @ milestone_arg L mn issue],
           out := out s @ [''  '' @ check_mark @ '' Created issue #''
              @ last (split CHR ''/''
                  (strip (stdout (gh (length (calls s)) (issue_argv issue @ milestone_arg L mn issue)))))
              @ '': '' @ issue.title issue]\<rparr>))"
  by (simp add: create_issues_body_def run_gh_command_eq issue_argv_def OWNER_def
      REPO_def print_def Let_def)


section \<open>Properties of the loops\<close>

subsection \<open>The processes a phase starts\<close>



lemma create_milestones_body_calls:
  "calls (snd (create_milestones_body L gh m mn s)) = calls s @ [milestone_argv m]"
  by (simp add: create_milestones_body_eq split: sum.splits)

lemma create_issues_body_calls:
  "calls (snd (create_issues_body L gh mn issue inums s))
     = calls s @ [issue_argv issue @ milestone_arg L mn issue]"
  by (simp add: create_issues_body_eq)

lemma create_issues_loop_calls:
  "calls (snd (create_issues_loop L gh mn issues inums s))
     = calls s @ map (\<lambda>issue. issue_argv issue @ milestone_arg L mn issue) issues"
proof (induction issues arbitrary: inums s)
  case Nil
  show ?case by simp
next
  case (Cons issue rest)
  obtain inums' s' where b: "create_issues_body L gh mn issue inums s = (inums', s')"
    by (cases "create_issues_body L gh mn issue inums s")
  then have "calls s' = calls s @ [issue_argv issue @ milestone_arg L mn issue]"
    using create_issues_body_calls [of L gh mn issue inums s] by simp
  with b Cons [of inums' s'] show ?case by simp
qed

lemma create_milestones_body_ok:
  assumes "milestone_output_ok L (gh (length (calls s)) (milestone_argv m))"
  shows "\<exists>mn'. fst (create_milestones_body L gh m mn s) = Inr mn'"
  using assms
  by (auto simp: create_milestones_body_eq milestone_output_ok_def decodes_def
      split: sum.splits)


text \<open>When the loop raises, it has started the processes of a proper part of the list.\<close>

lemma create_milestones_loop_raises:
  assumes "create_milestones_loop L gh ms mn s = (Inl e, s')"
  shows "\<exists>k<length ms. calls s' = calls s @ map milestone_argv (take (Suc k) ms)
           \<and> \<not> milestone_output_ok L (gh (length (calls s) + k) (milestone_argv (ms ! k)))"
  using assms
proof (induction ms arbitrary: mn s)
  case Nil
  then show ?case by simp
next
  case (Cons m rest)
  obtain r1 s1 where b: "create_milestones_body L gh m mn s = (r1, s1)"
    by (cases "create_milestones_body L gh m mn s")
  then have c: "calls s1 = calls s @ [milestone_argv m]"
    using create_milestones_body_calls [of L gh m mn s] by simp
  show ?case
  proof (cases r1)
    case (Inl e1)
    with b Cons.prems have "s' = s1" by simp
    moreover have "\<not> milestone_output_ok L (gh (length (calls s)) (milestone_argv m))"
      using create_milestones_body_ok [of L gh s m mn] b Inl by auto
    ultimately show ?thesis using c by (intro exI [of _ 0]) simp
  next
    case (Inr mn1)
    with b Cons.prems have "create_milestones_loop L gh rest mn1 s1 = (Inl e, s')" by simp
    from Cons.IH [OF this] obtain k where k: "k < length rest"
      and ck: "calls s' = calls s1 @ map milestone_argv (take (Suc k) rest)"
      and nk: "\<not> milestone_output_ok L (gh (length (calls s1) + k) (milestone_argv (rest ! k)))"
      by blast
    show ?thesis using k ck nk c by (intro exI [of _ "Suc k"]) simp
  qed
qed

subsection \<open>The error texts\<close>











section \<open>The command runner\<close>

lemmas fragment_defs =
  loads_def json_ws_def parse_string_body_def string_char_def parse_int_def parse_nat_def
  is_digit_def in_fragment_tail_def nat_of_digits_def digit_value_def subscript_def
  pylib_fragment_def str_json_def str_int_def repr_string_def

lemma loads_milestone:
  \<open>loads ''{"number": 7, "title": "v0.2.0 - Foundation", "state": "open"}''
     = Inr (JObject [(''number'', JInt 7), (''title'', JString ''v0.2.0 - Foundation''),
                     (''state'', JString ''open'')])\<close>
  by (simp add: fragment_defs)




lemma strip_examples:
  \<open>strip ''{"number": 7, "title": "v0.2.0 - Foundation", "state": "open"}\<newline>''
     = ''{"number": 7, "title": "v0.2.0 - Foundation", "state": "open"}''\<close>
  \<open>strip ''https://github.com/DubiWork/maaser-tracker/issues/42\<newline>''
     = ''https://github.com/DubiWork/maaser-tracker/issues/42''\<close>
  "strip [] = []"
  by (simp_all add: strip_def isspace_def)




section \<open>The records and their processes\<close>

subsection \<open>The labels\<close>



subsection \<open>The issues\<close>


lemma create_issues_body_err:
  "err (snd (create_issues_body L gh mn issue inums s))
     = err s @ reported gh (length (calls s)) [issue_argv issue @ milestone_arg L mn issue]"
  by (simp add: create_issues_body_eq)

lemma create_issues_loop_err:
  "err (snd (create_issues_loop L gh mn issues inums s))
     = err s @ reported gh (length (calls s))
         (map (\<lambda>issue. issue_argv issue @ milestone_arg L mn issue) issues)"
proof (induction issues arbitrary: inums s)
  case Nil
  show ?case by simp
next
  case (Cons issue rest)
  obtain inums' s' where b: "create_issues_body L gh mn issue inums s = (inums', s')"
    by (cases "create_issues_body L gh mn issue inums s")
  then have c: "calls s' = calls s @ [issue_argv issue @ milestone_arg L mn issue]"
    and e: "err s' = err s @ reported gh (length (calls s))
                 [issue_argv issue @ milestone_arg L mn issue]"
    using create_issues_body_calls [of L gh mn issue inums s]
      create_issues_body_err [of L gh mn issue inums s] by simp_all
  with b Cons [of inums' s'] show ?case by simp
qed

text \<open>
  Claim C9. For every issue record, the argument after \<^verbatim>\<open>--label\<close> of the process started
  for it is the record's labels joined with commas. The join keeps the order and the
  repetitions: splitting it at the commas gives the list back (for a non-empty list of
  labels without commas), and a label that stands twice is written twice. The labels
  are not compared with the table \<^verbatim>\<open>LABELS\<close>: the statement holds for every list of labels.
\<close>

theorem create_issues_labels_argument:
  "calls (snd (create_issues_loop L gh mn issues inums s))
     = calls s @ map (\<lambda>issue. [''gh'', ''issue'', ''create'', ''--title'', issue.title issue,
                               ''--body'', body issue,
                               ''--label'', join '','' (labels issue),
                               ''--repo'', ''DubiWork/maaser-tracker'']
                              @ milestone_arg L mn issue) issues
   \<and> (ls \<noteq> [] \<and> (\<forall>l\<in>set ls. CHR '','' \<notin> set l) \<longrightarrow> split CHR '','' (join '','' ls) = ls)
   \<and> join '','' [l] = l
   \<and> join '','' [l, l] = l @ '','' @ l"
  using split_join [of ls "CHR '',''"]
  by (simp add: create_issues_loop_calls issue_argv_def [abs_def])

theorem create_issues_labels_argument_witness:
  "calls (snd (create_issues_loop pylib_fragment gh_fails []
        [\<lparr>issue.title = ''Haptic Feedback (Mobile)'', body = ''## Description'',
          labels = [''story'', ''no-such-label'', ''story''], milestone = None\<rparr>] [] init))
     = [[''gh'', ''issue'', ''create'', ''--title'', ''Haptic Feedback (Mobile)'',
         ''--body'', ''## Description'', ''--label'', ''story,no-such-label,story'',
         ''--repo'', ''DubiWork/maaser-tracker'']]
   \<and> split CHR '','' ''story,no-such-label,story'' = [''story'', ''no-such-label'', ''story'']"
  using create_issues_labels_argument [of pylib_fragment gh_fails "[]"
      "[\<lparr>issue.title = ''Haptic Feedback (Mobile)'', body = ''## Description'',
          labels = [''story'', ''no-such-label'', ''story''], milestone = None\<rparr>]" "[]" init
      "[''story'', ''no-such-label'', ''story'']"]
  by (simp add: init_def milestone_arg_def)

text \<open>
  Claim C1. For the \<open>k\<close>-th issue record, the process started for it carries the two
  arguments \<^verbatim>\<open>--milestone\<close> and the formatted number exactly when the record has a
  milestone whose title is a key of the mapping of the milestone phase; otherwise (no
  milestone, or a title that is not a key, as after a failed creation of the milestone)
  the argument vector has no milestone argument. In both cases the process is started:
  the phase starts one process for each record, it has no error result, and it writes
  to the standard error only the error texts of processes that fail.
\<close>

theorem create_issues_milestone_argument:
  assumes "k < length issues"
  shows "((\<exists>t number. milestone (issues ! k) = Some t \<and> map_of mn t = Some number
            \<and> calls (snd (create_issues_loop L gh mn issues inums s)) ! (length (calls s) + k)
                = issue_argv (issues ! k) @ [''--milestone'', str L number])
         \<or> ((milestone (issues ! k) = None
              \<or> (\<exists>t. milestone (issues ! k) = Some t \<and> t \<notin> fst ` set mn))
             \<and> calls (snd (create_issues_loop L gh mn issues inums s)) ! (length (calls s) + k)
                = issue_argv (issues ! k)))
    \<and> length (calls (snd (create_issues_loop L gh mn issues inums s)))
           = length (calls s) + length issues
    \<and> err (snd (create_issues_loop L gh mn issues inums s))
           = err s @ reported gh (length (calls s))
               (map (\<lambda>issue. issue_argv issue @ milestone_arg L mn issue) issues)"
proof -
  have c: "calls (snd (create_issues_loop L gh mn issues inums s)) ! (length (calls s) + k)
        = issue_argv (issues ! k) @ milestone_arg L mn (issues ! k)"
    using assms by (simp add: create_issues_loop_calls nth_append)
  have "(\<exists>t number. milestone (issues ! k) = Some t \<and> map_of mn t = Some number
            \<and> calls (snd (create_issues_loop L gh mn issues inums s)) ! (length (calls s) + k)
                = issue_argv (issues ! k) @ [''--milestone'', str L number])
         \<or> ((milestone (issues ! k) = None
              \<or> (\<exists>t. milestone (issues ! k) = Some t \<and> t \<notin> fst ` set mn))
             \<and> calls (snd (create_issues_loop L gh mn issues inums s)) ! (length (calls s) + k)
                = issue_argv (issues ! k))"
  proof (cases "milestone (issues ! k)")
    case None
    with c show ?thesis by (simp add: milestone_arg_def)
  next
    case (Some t)
    show ?thesis
    proof (cases "map_of mn t")
      case None
      then have "t \<notin> fst ` set mn" by (simp add: map_of_eq_None_iff)
      with c Some None show ?thesis by (simp add: milestone_arg_def)
    next
      case (Some number)
      with c \<open>milestone (issues ! k) = Some t\<close> show ?thesis by (simp add: milestone_arg_def)
    qed
  qed
  moreover have "length (calls (snd (create_issues_loop L gh mn issues inums s)))
           = length (calls s) + length issues"
    by (simp add: create_issues_loop_calls)
  moreover have "err (snd (create_issues_loop L gh mn issues inums s))
           = err s @ reported gh (length (calls s))
               (map (\<lambda>issue. issue_argv issue @ milestone_arg L mn issue) issues)"
    by (rule create_issues_loop_err)
  ultimately show ?thesis by blast
qed

theorem create_issues_milestone_argument_witness:
  "calls (snd (create_issues_loop pylib_fragment gh_succeeds [(''v0.2.0 - Foundation'', JInt 7)]
        [\<lparr>issue.title = ''PWA Manifest'', body = ''## Description'', labels = [''story'', ''pwa''],
          milestone = Some ''v0.2.0 - Foundation''\<rparr>,
         \<lparr>issue.title = ''Dark Mode'', body = ''## Description'', labels = [''story''],
          milestone = Some ''v0.3.0 - Core Features''\<rparr>] [] init)) ! 0
     = [''gh'', ''issue'', ''create'', ''--title'', ''PWA Manifest'', ''--body'', ''## Description'',
        ''--label'', ''story,pwa'', ''--repo'', ''DubiWork/maaser-tracker'', ''--milestone'', ''7'']
   \<and> calls (snd (create_issues_loop pylib_fragment gh_succeeds [(''v0.2.0 - Foundation'', JInt 7)]
        [\<lparr>issue.title = ''PWA Manifest'', body = ''## Description'', labels = [''story'', ''pwa''],
          milestone = Some ''v0.2.0 - Foundation''\<rparr>,
         \<lparr>issue.title = ''Dark Mode'', body = ''## Description'', labels = [''story''],
          milestone = Some ''v0.3.0 - Core Features''\<rparr>] [] init)) ! 1
     = [''gh'', ''issue'', ''create'', ''--title'', ''Dark Mode'', ''--body'', ''## Description'',
        ''--label'', ''story'', ''--repo'', ''DubiWork/maaser-tracker'']"
  using create_issues_milestone_argument [of 0
      "[\<lparr>issue.title = ''PWA Manifest'', body = ''## Description'', labels = [''story'', ''pwa''],
          milestone = Some ''v0.2.0 - Foundation''\<rparr>,
         \<lparr>issue.title = ''Dark Mode'', body = ''## Description'', labels = [''story''],
          milestone = Some ''v0.3.0 - Core Features''\<rparr>]"
      "[(''v0.2.0 - Foundation'', JInt 7)]" pylib_fragment gh_succeeds "[]" init]
    create_issues_milestone_argument [of 1
      "[\<lparr>issue.title = ''PWA Manifest'', body = ''## Description'', labels = [''story'', ''pwa''],
          milestone = Some ''v0.2.0 - Foundation''\<rparr>,
         \<lparr>issue.title = ''Dark Mode'', body = ''## Description'', labels = [''story''],
          milestone = Some ''v0.3.0 - Core Features''\<rparr>]"
      "[(''v0.2.0 - Foundation'', JInt 7)]" pylib_fragment gh_succeeds "[]" init]
  by (simp add: init_def issue_argv_def pylib_fragment_def str_json_def str_int_def
      str_nat.simps)

subsection \<open>Empty output of a successful process\<close>

text \<open>
  Claim C10. When a process exits with code 0 and its trimmed output is empty, the label
  phase prints its confirmation, while the milestone phase and the issue phase record
  nothing and print nothing: their step only adds the process to the log.
\<close>

theorem empty_output_of_success:
  "(returncode (gh (length (calls s)) (label_argv label)) = 0
      \<and> strip (stdout (gh (length (calls s)) (label_argv label))) = []
    \<longrightarrow> out (create_labels_body gh label s)
          = out s @ [''  '' @ check_mark @ '' Created label: '' @ name label])
   \<and> (returncode (gh (length (calls s)) (milestone_argv m)) = 0
      \<and> strip (stdout (gh (length (calls s)) (milestone_argv m))) = []
    \<longrightarrow> create_milestones_body L gh m mn s = (Inr mn, s\<lparr>calls := calls s @ [milestone_argv m]\<rparr>))
   \<and> (returncode (gh (length (calls s)) (issue_argv issue @ milestone_arg L mn issue)) = 0
      \<and> strip (stdout (gh (length (calls s)) (issue_argv issue @ milestone_arg L mn issue))) = []
    \<longrightarrow> create_issues_body L gh mn issue inums s
          = (inums, s\<lparr>calls := calls s @ [issue_argv issue @ milestone_arg L mn issue]\<rparr>))"
  by (simp add: create_labels_body_eq create_milestones_body_eq create_issues_body_eq)

theorem empty_output_of_success_witness:
  "out (create_labels_body (gh_milestone_output [])
          \<lparr>name = ''epic'', color = ''7057ff'', label.description = ''Epic-level issue''\<rparr> init)
     = [''  '' @ check_mark @ '' Created label: epic'']
   \<and> fst (create_milestones_body pylib_fragment (gh_milestone_output [])
          \<lparr>milestone.title = ''v0.2.0 - Foundation'',
           milestone.description = ''Foundation and Infrastructure + PWA'', due_on = None\<rparr> [] init)
     = Inr []
   \<and> out (snd (create_milestones_body pylib_fragment (gh_milestone_output [])
          \<lparr>milestone.title = ''v0.2.0 - Foundation'',
           milestone.description = ''Foundation and Infrastructure + PWA'', due_on = None\<rparr> [] init))
     = []
   \<and> fst (create_issues_body pylib_fragment (gh_milestone_output []) []
          \<lparr>issue.title = ''Dark Mode'', body = ''## Description'', labels = [''story''],
           milestone = None\<rparr> [] init)
     = []
   \<and> out (snd (create_issues_body pylib_fragment (gh_milestone_output []) []
          \<lparr>issue.title = ''Dark Mode'', body = ''## Description'', labels = [''story''],
           milestone = None\<rparr> [] init))
     = []"
  using empty_output_of_success [where gh = "gh_milestone_output []" and s = init
      and label = "\<lparr>name = ''epic'', color = ''7057ff'', label.description = ''Epic-level issue''\<rparr>"
      and m = "\<lparr>milestone.title = ''v0.2.0 - Foundation'',
           milestone.description = ''Foundation and Infrastructure + PWA'', due_on = None\<rparr>"
      and issue = "\<lparr>issue.title = ''Dark Mode'', body = ''## Description'', labels = [''story''],
           milestone = None\<rparr>"
      and L = pylib_fragment and mn = "[]" and inums = "[]"]
  by (simp add: gh_milestone_output_def exited_def init_def strip_examples)

subsection \<open>The identifier of an issue\<close>










subsection \<open>The milestones\<close>

lemma create_milestones_body_other:
  "fst (create_milestones_body L gh m mn s) = Inr mn' \<Longrightarrow> t \<noteq> milestone.title m
    \<Longrightarrow> map_of mn' t = map_of mn t"
  by (auto simp: create_milestones_body_eq update_conv' split: if_splits sum.splits)

lemma create_milestones_loop_other:
  "create_milestones_loop L gh ms mn s = (Inr mn', s') \<Longrightarrow> t \<notin> set (map milestone.title ms)
    \<Longrightarrow> map_of mn' t = map_of mn t"
proof (induction ms arbitrary: mn s)
  case Nil
  then show ?case by simp
next
  case (Cons m rest)
  obtain r1 s1 where b: "create_milestones_body L gh m mn s = (r1, s1)"
    by (cases "create_milestones_body L gh m mn s")
  with Cons.prems obtain mn1 where r1: "r1 = Inr mn1" by (cases r1) auto
  with b Cons.prems have l: "create_milestones_loop L gh rest mn1 s1 = (Inr mn', s')" by simp
  have "map_of mn1 t = map_of mn t"
    using create_milestones_body_other [of L gh m mn s mn1 t] b r1 Cons.prems by simp
  with Cons.IH [OF l] Cons.prems show ?case by simp
qed

lemma create_milestones_body_success:
  "returncode (gh (length (calls s)) (milestone_argv m)) = 0
    \<Longrightarrow> strip (stdout (gh (length (calls s)) (milestone_argv m))) \<noteq> []
    \<Longrightarrow> json_loads L (strip (stdout (gh (length (calls s)) (milestone_argv m)))) = Inr data
    \<Longrightarrow> getitem L data ''number'' = Inr number
    \<Longrightarrow> fst (create_milestones_body L gh m mn s)
          = Inr (AList.update (milestone.title m) number mn)"
  by (simp add: create_milestones_body_eq)

lemma create_milestones_body_failure:
  "returncode (gh (length (calls s)) (milestone_argv m)) \<noteq> 0
    \<Longrightarrow> fst (create_milestones_body L gh m mn s) = Inr mn"
  by (simp add: create_milestones_body_eq)

lemma create_milestones_loop_entry:
  assumes "create_milestones_loop L gh ms mn s = (Inr mn', s')"
    and "distinct (map milestone.title ms)" and "k < length ms"
  shows "(returncode (gh (length (calls s) + k) (milestone_argv (ms ! k))) = 0
          \<and> strip (stdout (gh (length (calls s) + k) (milestone_argv (ms ! k)))) \<noteq> []
          \<and> json_loads L (strip (stdout (gh (length (calls s) + k) (milestone_argv (ms ! k)))))
              = Inr data
          \<and> getitem L data ''number'' = Inr number
          \<longrightarrow> map_of mn' (milestone.title (ms ! k)) = Some number)
       \<and> (returncode (gh (length (calls s) + k) (milestone_argv (ms ! k))) \<noteq> 0
          \<longrightarrow> map_of mn' (milestone.title (ms ! k)) = map_of mn (milestone.title (ms ! k)))"
  using assms
proof (induction ms arbitrary: mn s k)
  case Nil
  then show ?case by simp
next
  case (Cons m rest)
  obtain r1 s1 where b: "create_milestones_body L gh m mn s = (r1, s1)"
    by (cases "create_milestones_body L gh m mn s")
  with Cons.prems obtain mn1 where r1: "r1 = Inr mn1" by (cases r1) auto
  with b Cons.prems have l: "create_milestones_loop L gh rest mn1 s1 = (Inr mn', s')" by simp
  have c: "calls s1 = calls s @ [milestone_argv m]"
    using create_milestones_body_calls [of L gh m mn s] b by simp
  show ?case
  proof (cases k)
    case 0
    from Cons.prems have fresh: "milestone.title m \<notin> set (map milestone.title rest)" by simp
    have keep: "map_of mn' (milestone.title m) = map_of mn1 (milestone.title m)"
      using create_milestones_loop_other [OF l fresh] .
    show ?thesis
      using 0 keep b r1 create_milestones_body_success [of gh s m L data number mn]
        create_milestones_body_failure [of gh s m L mn]
      by (auto simp: update_conv')
  next
    case (Suc j)
    with Cons.prems have j: "j < length rest" and d: "distinct (map milestone.title rest)"
      and fresh: "milestone.title m \<notin> set (map milestone.title rest)" by auto
    from j have "milestone.title (rest ! j) \<in> set (map milestone.title rest)" by simp
    with fresh have ne: "milestone.title (rest ! j) \<noteq> milestone.title m" by metis
    have "map_of mn1 (milestone.title (rest ! j)) = map_of mn (milestone.title (rest ! j))"
      using create_milestones_body_other [of L gh m mn s mn1 "milestone.title (rest ! j)"]
        b r1 ne by simp
    with Cons.IH [OF l d j] c Suc show ?thesis by simp
  qed
qed

lemma distinct_MILESTONES: "distinct (map milestone.title MILESTONES)"
  by (simp add: MILESTONES_def)

text \<open>
  Claim C5. When \<^verbatim>\<open>create_milestones\<close> returns its mapping \<open>mn\<close>, then for the \<open>k\<close>-th
  milestone record: if its process \<open>p\<close> exits with code 0 and its trimmed output is a
  non-empty text that \<^verbatim>\<open>json.loads\<close> decodes to a value whose item \<^verbatim>\<open>'number'\<close> is
  \<open>number\<close>, the mapping has the entry from the title of the record to \<open>number\<close>; if the
  process fails, the mapping has no entry for the title. The same for one step of the
  loop, for any record \<open>m\<close>, mapping \<open>mn'\<close> and state \<open>s'\<close>: a decoded number is stored
  under the title, a failure leaves the mapping as it is.
\<close>

theorem create_milestones_mapping:
  assumes "fst (create_milestones L gh s) = Inr mn" and "k < length MILESTONES"
    and "p = gh (length (calls s) + k) (milestone_argv (MILESTONES ! k))"
    and "q = gh (length (calls s')) (milestone_argv m)"
  shows "(returncode p = 0 \<and> strip (stdout p) \<noteq> []
            \<and> json_loads L (strip (stdout p)) = Inr data
            \<and> getitem L data ''number'' = Inr number
          \<longrightarrow> map_of mn (milestone.title (MILESTONES ! k)) = Some number)
       \<and> (returncode p \<noteq> 0 \<longrightarrow> map_of mn (milestone.title (MILESTONES ! k)) = None)
       \<and> (returncode q = 0 \<and> strip (stdout q) \<noteq> []
            \<and> json_loads L (strip (stdout q)) = Inr data
            \<and> getitem L data ''number'' = Inr number
          \<longrightarrow> fst (create_milestones_body L gh m mn' s')
                = Inr (AList.update (milestone.title m) number mn'))
       \<and> (returncode q \<noteq> 0 \<longrightarrow> fst (create_milestones_body L gh m mn' s') = Inr mn')"
proof -
  obtain s2 where l: "create_milestones_loop L gh MILESTONES []
      (print ''\<newline>Creating milestones...'' s) = (Inr mn, s2)"
    using assms(1) by (cases "create_milestones L gh s") (simp add: create_milestones_def)
  have "calls (print ''\<newline>Creating milestones...'' s) = calls s" by (simp add: print_def)
  with create_milestones_loop_entry [OF l distinct_MILESTONES assms(2), of data number] assms(3)
  have "(returncode p = 0 \<and> strip (stdout p) \<noteq> []
            \<and> json_loads L (strip (stdout p)) = Inr data
            \<and> getitem L data ''number'' = Inr number
          \<longrightarrow> map_of mn (milestone.title (MILESTONES ! k)) = Some number)
       \<and> (returncode p \<noteq> 0 \<longrightarrow> map_of mn (milestone.title (MILESTONES ! k)) = None)"
    by simp
  then show ?thesis
    using create_milestones_body_success [of gh s' m L data number mn']
      create_milestones_body_failure [of gh s' m L mn'] assms(4)
    by simp
qed

lemma create_milestones_partial:
  "fst (create_milestones pylib_fragment gh_partial init)
     = Inr [(''v0.2.0 - Foundation'', JInt 7), (''v0.4.0 - Cloud & Analytics'', JInt 7),
            (''v1.0.0 - Production Release'', JInt 7)]"
  by (simp add: create_milestones_def MILESTONES_def create_milestones_body_eq gh_partial_def
      gh_succeeds_def exited_def milestone_argv_def strip_examples loads_milestone
      pylib_fragment_def subscript_def)

theorem create_milestones_mapping_witness:
  "fst (create_milestones pylib_fragment gh_partial init)
     = Inr [(''v0.2.0 - Foundation'', JInt 7), (''v0.4.0 - Cloud & Analytics'', JInt 7),
            (''v1.0.0 - Production Release'', JInt 7)]
   \<and> map_of [(''v0.2.0 - Foundation'', JInt 7), (''v0.4.0 - Cloud & Analytics'', JInt 7),
            (''v1.0.0 - Production Release'', JInt 7)] (milestone.title (MILESTONES ! 0))
       = Some (JInt 7)
   \<and> map_of [(''v0.2.0 - Foundation'', JInt 7), (''v0.4.0 - Cloud & Analytics'', JInt 7),
            (''v1.0.0 - Production Release'', JInt 7)] (milestone.title (MILESTONES ! 1))
       = None
   \<and> fst (create_milestones_body pylib_fragment gh_partial (MILESTONES ! 0) [] init)
       = Inr [(''v0.2.0 - Foundation'', JInt 7)]
   \<and> fst (create_milestones_body pylib_fragment gh_partial (MILESTONES ! 1) [] init)
       = Inr []"
proof -
  note w = create_milestones_mapping [where L = pylib_fragment and gh = gh_partial and s = init
      and s' = init and mn' = "[]"
      and mn = "[(''v0.2.0 - Foundation'', JInt 7), (''v0.4.0 - Cloud & Analytics'', JInt 7),
                 (''v1.0.0 - Production Release'', JInt 7)]"
      and data = "JObject [(''number'', JInt 7), (''title'', JString ''v0.2.0 - Foundation''),
                     (''state'', JString ''open'')]"
      and number = "JInt 7", OF create_milestones_partial]
  have four: "0 < length MILESTONES" "1 < length MILESTONES" by (simp_all add: MILESTONES_def)
  show ?thesis
    using create_milestones_partial
      w [OF four(1) refl refl, of "MILESTONES ! 0"] w [OF four(2) refl refl, of "MILESTONES ! 1"]
    by (simp add: MILESTONES_def gh_partial_def gh_succeeds_def exited_def milestone_argv_def
        init_def strip_examples loads_milestone pylib_fragment_def subscript_def)
qed


section \<open>The run as a whole\<close>

subsection \<open>The phases and the run\<close>



















subsection \<open>Failures are reported, the exit status\<close>








end
